theory Spec2Isabelle
  imports Main "HOL-Library.Multiset"
begin

section \<open>Status codes (package opstatus)\<close>

text \<open>
  \<^verbatim>\<open>type Code struct { name string; value int }\<close>.  Go's \<^verbatim>\<open>int\<close> is used here only
  as a table key and an index, never in arithmetic, so it is modelled by \<^typ>\<open>int\<close>.
  The field \<^verbatim>\<open>value\<close> is called \<open>val\<close> because \<open>value\<close> is an Isabelle command.
\<close>

record Code =
  name :: string
  val :: int

definition newCode :: "string \<Rightarrow> int \<Rightarrow> Code" where
  "newCode n v = \<lparr>name = n, val = v\<rparr>"

definition CodeOK :: Code where
  "CodeOK = newCode ''OK'' 0"

definition CodeCancelled :: Code where
  "CodeCancelled = newCode ''OperationCancelled'' 1"

definition CodeUnknown :: Code where
  "CodeUnknown = newCode ''UnknownError'' 2"

definition CodeInvalidArgument :: Code where
  "CodeInvalidArgument = newCode ''InvalidArgument'' 3"

definition CodeDeadlineExceeded :: Code where
  "CodeDeadlineExceeded = newCode ''DeadlineExceeded'' 4"

definition CodeNotFound :: Code where
  "CodeNotFound = newCode ''NotFound'' 5"

definition CodeAlreadyExists :: Code where
  "CodeAlreadyExists = newCode ''AlreadyExists'' 6"

definition CodePermissionDenied :: Code where
  "CodePermissionDenied = newCode ''PermissionDenied'' 7"

definition CodeUnauthenticated :: Code where
  "CodeUnauthenticated = newCode ''Unauthenticated'' 16"

definition CodeResourceExhausted :: Code where
  "CodeResourceExhausted = newCode ''ResourceExhausted'' 8"

definition CodeFailedPrecondition :: Code where
  "CodeFailedPrecondition = newCode ''FailedPrecondition'' 9"

definition CodeAborted :: Code where
  "CodeAborted = newCode ''OperationAborted'' 10"

definition CodeOutOfRange :: Code where
  "CodeOutOfRange = newCode ''OutOfRange'' 11"

definition CodeUnimplemented :: Code where
  "CodeUnimplemented = newCode ''OperationUnimplemented'' 12"

definition CodeInternal :: Code where
  "CodeInternal = newCode ''InternalError'' 13"

definition CodeUnavailable :: Code where
  "CodeUnavailable = newCode ''ServiceUnavailable'' 14"

definition CodeDataLoss :: Code where
  "CodeDataLoss = newCode ''DataLoss'' 15"

lemmas Code_defs =
  newCode_def CodeOK_def CodeCancelled_def CodeUnknown_def CodeInvalidArgument_def
  CodeDeadlineExceeded_def CodeNotFound_def CodeAlreadyExists_def CodePermissionDenied_def
  CodeUnauthenticated_def CodeResourceExhausted_def CodeFailedPrecondition_def
  CodeAborted_def CodeOutOfRange_def CodeUnimplemented_def CodeInternal_def
  CodeUnavailable_def CodeDataLoss_def

text \<open>
  The seventeen \<^verbatim>\<open>append\<close> calls of \<^verbatim>\<open>codeList\<close>, in the order of the source:
  \<^verbatim>\<open>CodeUnauthenticated\<close> (value 16) is appended ninth.
\<close>

definition codeList_appended :: "Code list" where
  "codeList_appended =
     [CodeOK, CodeCancelled, CodeUnknown, CodeInvalidArgument, CodeDeadlineExceeded,
      CodeNotFound, CodeAlreadyExists, CodePermissionDenied, CodeUnauthenticated,
      CodeResourceExhausted, CodeFailedPrecondition, CodeAborted, CodeOutOfRange,
      CodeUnimplemented, CodeInternal, CodeUnavailable, CodeDataLoss]"

text \<open>
  \<^verbatim>\<open>sort.Slice(list, func(i, j int) bool { return list[i].value < list[j].value })\<close>.
  \<^verbatim>\<open>sort.Slice\<close> is not stable, but it returns a permutation ordered by the
  comparison; the values are pairwise distinct (lemma \<open>codeList_appended_distinct\<close>), so
  that permutation is unique and the insertion sort \<^const>\<open>sort_key\<close> computes it
  (lemma \<open>sort_by_val_unique\<close>).
\<close>

definition codeList :: "Code list" where
  "codeList = sort_key val codeList_appended"

section \<open>Values of type \<^verbatim>\<open>any\<close>, failures\<close>

text \<open>
  \<^verbatim>\<open>type any interface{}\<close>: the dynamic values that occur as detail values and as
  operands of \<^verbatim>\<open>fmt.Sprintf\<close>.
\<close>

datatype any = AnyNil | AnyInt int | AnyString string | AnySlice "any list"

text \<open>
  A run-time panic of Go is a value.  \<open>UnsupportedVerb\<close> is not a panic: it marks a
  format string outside the fragment of \<^verbatim>\<open>fmt.Sprintf\<close> modelled below.
\<close>

datatype failure =
    IndexOutOfRange
  | AssignmentToEntryInNilMap
  | ErrorsAsTargetMustBeInterfaceOrImplementError
  | UnsupportedVerb char

section \<open>Status and the prototype table\<close>

text \<open>\<^verbatim>\<open>type Case interface { Identifier() string }\<close>: a case is known by its identifier.\<close>

datatype Case = Case (Identifier: string)

text \<open>
  \<^verbatim>\<open>type Status struct { code Code; theCase Case; description string; details map[string]any }\<close>.
  An interface value may be nil, and so may a map: \<open>None\<close> is nil in both fields.
\<close>

record Status =
  code :: Code
  theCase :: "Case option"
  description :: string
  details :: "(string \<rightharpoonup> any) option"

definition newStatus :: "Code \<Rightarrow> Status" where
  "newStatus c = \<lparr>code = c, theCase = None, description = [], details = None\<rparr>"

definition statusList :: "Status list" where
  "statusList = map newStatus codeList"

text \<open>Indexing a slice with a Go \<^verbatim>\<open>int\<close>: out of range is a panic.\<close>

definition index :: "'a list \<Rightarrow> int \<Rightarrow> failure + 'a" where
  "index xs i = (if 0 \<le> i \<and> i < int (length xs) then Inr (xs ! nat i) else Inl IndexOutOfRange)"

text \<open>\<^verbatim>\<open>func (c Code) Value() int\<close> and \<^verbatim>\<open>func (c Code) toStatus() Status\<close>.\<close>

definition Value :: "Code \<Rightarrow> int" where
  "Value c = val c"

definition toStatus :: "Code \<Rightarrow> failure + Status" where
  "toStatus c = index statusList (val c)"

text \<open>
  The package-level prototypes \<^verbatim>\<open>StatusOK = CodeOK.toStatus()\<close> and so on.  Each is
  the result of its initializer, which indexes \<open>statusList\<close> and could panic, so each
  is a value of \<open>failure + Status\<close>; a function that reads a prototype passes the
  failure on.
\<close>

definition StatusOK :: "failure + Status" where
  "StatusOK = toStatus CodeOK"

definition StatusCancelled :: "failure + Status" where
  "StatusCancelled = toStatus CodeCancelled"

definition StatusUnknown :: "failure + Status" where
  "StatusUnknown = toStatus CodeUnknown"

definition StatusInvalidArgument :: "failure + Status" where
  "StatusInvalidArgument = toStatus CodeInvalidArgument"

definition StatusDeadlineExceeded :: "failure + Status" where
  "StatusDeadlineExceeded = toStatus CodeDeadlineExceeded"

definition StatusNotFound :: "failure + Status" where
  "StatusNotFound = toStatus CodeNotFound"

definition StatusAlreadyExists :: "failure + Status" where
  "StatusAlreadyExists = toStatus CodeAlreadyExists"

definition StatusPermissionDenied :: "failure + Status" where
  "StatusPermissionDenied = toStatus CodePermissionDenied"

definition StatusUnauthenticated :: "failure + Status" where
  "StatusUnauthenticated = toStatus CodeUnauthenticated"

definition StatusResourceExhausted :: "failure + Status" where
  "StatusResourceExhausted = toStatus CodeResourceExhausted"

definition StatusFailedPrecondition :: "failure + Status" where
  "StatusFailedPrecondition = toStatus CodeFailedPrecondition"

definition StatusAborted :: "failure + Status" where
  "StatusAborted = toStatus CodeAborted"

definition StatusOutOfRange :: "failure + Status" where
  "StatusOutOfRange = toStatus CodeOutOfRange"

definition StatusUnimplemented :: "failure + Status" where
  "StatusUnimplemented = toStatus CodeUnimplemented"

definition StatusInternal :: "failure + Status" where
  "StatusInternal = toStatus CodeInternal"

definition StatusUnavailable :: "failure + Status" where
  "StatusUnavailable = toStatus CodeUnavailable"

definition StatusDataLoss :: "failure + Status" where
  "StatusDataLoss = toStatus CodeDataLoss"

lemmas Status_defs =
  StatusOK_def StatusCancelled_def StatusUnknown_def StatusInvalidArgument_def
  StatusDeadlineExceeded_def StatusNotFound_def StatusAlreadyExists_def
  StatusPermissionDenied_def StatusUnauthenticated_def StatusResourceExhausted_def
  StatusFailedPrecondition_def StatusAborted_def StatusOutOfRange_def
  StatusUnimplemented_def StatusInternal_def StatusUnavailable_def StatusDataLoss_def

section \<open>Library functions on strings: \<^verbatim>\<open>strings.TrimSpace\<close>, \<^verbatim>\<open>fmt.Sprintf\<close>\<close>

text \<open>
  A Go string is a sequence of bytes, here a \<^typ>\<open>string\<close>.  \<^verbatim>\<open>strings.TrimSpace\<close>
  removes the leading and the trailing white space as \<^verbatim>\<open>unicode.IsSpace\<close> defines
  it, decoding UTF-8.  \<open>space_encodings\<close> lists the UTF-8 encodings of the white-space
  code points: U+0009..U+000D, U+0020, U+0085, U+00A0, U+1680, U+2000..U+200A, U+2028,
  U+2029, U+202F, U+205F and U+3000.  A byte sequence that is not valid UTF-8 decodes to
  U+FFFD, which is not white space, so comparing with the encodings decides both ends.
\<close>

definition space_encodings :: "string list" where
  "space_encodings =
     [[CHR 0x09], [CHR 0x0A], [CHR 0x0B], [CHR 0x0C], [CHR 0x0D], [CHR 0x20],
      [CHR 0xC2, CHR 0x85], [CHR 0xC2, CHR 0xA0],
      [CHR 0xE1, CHR 0x9A, CHR 0x80],
      [CHR 0xE2, CHR 0x80, CHR 0x80], [CHR 0xE2, CHR 0x80, CHR 0x81],
      [CHR 0xE2, CHR 0x80, CHR 0x82], [CHR 0xE2, CHR 0x80, CHR 0x83],
      [CHR 0xE2, CHR 0x80, CHR 0x84], [CHR 0xE2, CHR 0x80, CHR 0x85],
      [CHR 0xE2, CHR 0x80, CHR 0x86], [CHR 0xE2, CHR 0x80, CHR 0x87],
      [CHR 0xE2, CHR 0x80, CHR 0x88], [CHR 0xE2, CHR 0x80, CHR 0x89],
      [CHR 0xE2, CHR 0x80, CHR 0x8A],
      [CHR 0xE2, CHR 0x80, CHR 0xA8], [CHR 0xE2, CHR 0x80, CHR 0xA9],
      [CHR 0xE2, CHR 0x80, CHR 0xAF],
      [CHR 0xE2, CHR 0x81, CHR 0x9F],
      [CHR 0xE3, CHR 0x80, CHR 0x80]]"

text \<open>The number of bytes of the white-space code point a string starts with, else 0.\<close>

definition space_prefix :: "string \<Rightarrow> nat" where
  "space_prefix s =
     (case find (\<lambda>e. take (length e) s = e) space_encodings of
        None \<Rightarrow> 0
      | Some e \<Rightarrow> length e)"

text \<open>The number of bytes of the white-space code point a string ends with, else 0.\<close>

definition space_suffix :: "string \<Rightarrow> nat" where
  "space_suffix s =
     (case find (\<lambda>e. length e \<le> length s \<and> drop (length s - length e) s = e) space_encodings of
        None \<Rightarrow> 0
      | Some e \<Rightarrow> length e)"

function TrimLeftSpace :: "string \<Rightarrow> string" where
  "TrimLeftSpace s =
     (if space_prefix s = 0 then s else TrimLeftSpace (drop (space_prefix s) s))"
  by pat_completeness auto
termination
proof (relation "measure length")
  show "wf (measure length)" by simp
next
  fix s :: string
  assume pos: "space_prefix s \<noteq> 0"
  have "space_prefix [] = 0"
    by (simp add: space_prefix_def space_encodings_def)
  with pos have "s \<noteq> []" by auto
  with pos show "(drop (space_prefix s) s, s) \<in> measure length" by simp
qed

function TrimRightSpace :: "string \<Rightarrow> string" where
  "TrimRightSpace s =
     (if space_suffix s = 0 then s else TrimRightSpace (take (length s - space_suffix s) s))"
  by pat_completeness auto
termination
proof (relation "measure length")
  show "wf (measure length)" by simp
next
  fix s :: string
  assume pos: "space_suffix s \<noteq> 0"
  have "space_suffix [] = 0"
    by (simp add: space_suffix_def space_encodings_def)
  with pos have "s \<noteq> []" by auto
  with pos show "(take (length s - space_suffix s) s, s) \<in> measure length" by simp
qed

declare TrimLeftSpace.simps [simp del]
declare TrimRightSpace.simps [simp del]

definition TrimSpace :: "string \<Rightarrow> string" where
  "TrimSpace s = TrimRightSpace (TrimLeftSpace s)"

text \<open>Decimal rendering of an \<^verbatim>\<open>int\<close>, as the verb \<^verbatim>\<open>%v\<close> prints it.\<close>

definition digit :: "nat \<Rightarrow> char" where
  "digit d = ''0123456789'' ! d"

function digits :: "nat \<Rightarrow> string" where
  "digits n = (if n < 10 then [digit n] else digits (n div 10) @ [digit (n mod 10)])"
  by pat_completeness auto
termination
  by (relation "measure id") auto

declare digits.simps [simp del]

definition Itoa :: "int \<Rightarrow> string" where
  "Itoa i = (if i < 0 then CHR ''-'' # digits (nat (- i)) else digits (nat i))"

fun join :: "string \<Rightarrow> string list \<Rightarrow> string" where
  "join sep [] = []"
| "join sep [x] = x"
| "join sep (x # y # ys) = x @ sep @ join sep (y # ys)"

text \<open>
  The verb \<^verbatim>\<open>%v\<close> on an operand: an integer in decimal, a string as it is, nil as
  \<^verbatim>\<open><nil>\<close>, and a slice as its elements between brackets, separated by one space.
\<close>

fun format_v :: "any \<Rightarrow> string" where
  "format_v AnyNil = ''<nil>''"
| "format_v (AnyInt i) = Itoa i"
| "format_v (AnyString s) = s"
| "format_v (AnySlice xs) = ''['' @ join '' '' (map format_v xs) @ '']''"

text \<open>What \<^verbatim>\<open>Sprintf\<close> appends for operands that no verb consumed.\<close>

fun typeString :: "any \<Rightarrow> string" where
  "typeString AnyNil = ''<nil>''"
| "typeString (AnyInt i) = ''int''"
| "typeString (AnyString s) = ''string''"
| "typeString (AnySlice xs) = ''[]interface {}''"

definition extraOperand :: "any \<Rightarrow> string" where
  "extraOperand a = (if a = AnyNil then ''<nil>'' else typeString a @ ''='' @ format_v a)"

definition extraOperands :: "any list \<Rightarrow> string" where
  "extraOperands args =
     (if args = [] then [] else ''%!(EXTRA '' @ join '', '' (map extraOperand args) @ '')'')"

text \<open>
  \<^verbatim>\<open>fmt.Sprintf(format, a...)\<close> for formats built from plain text, \<^verbatim>\<open>%v\<close> and
  \<^verbatim>\<open>%%\<close>: each \<^verbatim>\<open>%v\<close> consumes the next operand (\<^verbatim>\<open>%!v(MISSING)\<close> when none is
  left), a lone \<^verbatim>\<open>%\<close> at the end is \<^verbatim>\<open>%!(NOVERB)\<close>, and operands left over are
  reported.  Any other verb or flag is outside the model.
\<close>

fun Sprintf :: "string \<Rightarrow> any list \<Rightarrow> failure + string" where
  "Sprintf [] args = Inr (extraOperands args)"
| "Sprintf [c] args =
     (if c = CHR ''%'' then Inr (''%!(NOVERB)'' @ extraOperands args)
      else Inr (c # extraOperands args))"
| "Sprintf (c # d # rest) args =
     (if c \<noteq> CHR ''%'' then map_sum id ((#) c) (Sprintf (d # rest) args)
      else if d = CHR ''%'' then map_sum id ((#) CHR ''%'') (Sprintf rest args)
      else if d = CHR ''v'' then
        (case args of
           [] \<Rightarrow> map_sum id ((@) ''%!v(MISSING)'') (Sprintf rest [])
         | a # as \<Rightarrow> map_sum id ((@) (format_v a)) (Sprintf rest as))
      else Inl (UnsupportedVerb d))"

section \<open>Operations on Status\<close>

text \<open>
  Every function of the source that returns a \<^verbatim>\<open>*Status\<close> is modelled by the Status
  the pointer refers to.  \<^verbatim>\<open>NewWithCodeValue\<close> and \<^verbatim>\<open>NewWithCode\<close> return the
  address of an element of \<open>statusList\<close>, the other functions the address of a new
  Status.
\<close>

definition copyDetails :: "(string \<rightharpoonup> any) option \<Rightarrow> (string \<rightharpoonup> any) option" where
  "copyDetails ds = (case ds of None \<Rightarrow> Some Map.empty | Some m \<Rightarrow> Some (\<lambda>k. m k))"

definition WithDescription :: "Status \<Rightarrow> string \<Rightarrow> Status" where
  "WithDescription s d =
     (let description' = TrimSpace d in
      if description s = description' then s
      else \<lparr>code = code s, theCase = theCase s, description = description',
             details = copyDetails (details s)\<rparr>)"

text \<open>
  \<^verbatim>\<open>s.WithDescription(fmt.Sprintf(descFmt, fmtArgs))\<close>: the slice \<^verbatim>\<open>fmtArgs\<close> is passed
  as it is, not spread with \<^verbatim>\<open>fmtArgs...\<close>, so \<^verbatim>\<open>Sprintf\<close> receives one operand, the
  slice.
\<close>

definition WithDescriptionf :: "Status \<Rightarrow> string \<Rightarrow> any list \<Rightarrow> failure + Status" where
  "WithDescriptionf s descFmt fmtArgs =
     map_sum id (WithDescription s) (Sprintf descFmt [AnySlice fmtArgs])"

definition AugmentDescription :: "Status \<Rightarrow> string \<Rightarrow> Status" where
  "AugmentDescription s additionalDetail =
     (if additionalDetail = [] then s
      else
        let newMsg = (if description s = [] then additionalDetail
                      else description s @ ''\<newline>'' @ additionalDetail)
        in WithDescription s newMsg)"

text \<open>
  \<^verbatim>\<open>s.details[key] = value\<close> panics when the map is nil.  The updated receiver is
  returned.
\<close>

definition AddDetail :: "Status \<Rightarrow> string \<Rightarrow> any \<Rightarrow> failure + Status" where
  "AddDetail s key v =
     (let key' = TrimSpace key in
      if key' = [] then Inr s
      else
        (case details s of
           None \<Rightarrow> Inl AssignmentToEntryInNilMap
         | Some m \<Rightarrow> Inr (s\<lparr>details := Some (m(key' \<mapsto> v))\<rparr>)))"

definition NewWithCodeValue :: "int \<Rightarrow> failure + Status" where
  "NewWithCodeValue codeValue =
     (if codeValue < 0 \<or> codeValue \<ge> int (length statusList) then
        (case StatusUnknown of
           Inl f \<Rightarrow> Inl f
         | Inr unknown \<Rightarrow> WithDescriptionf unknown ''Unknown op status code: %v'' [AnyInt codeValue])
      else index statusList codeValue)"

definition NewWithCode :: "Code \<Rightarrow> failure + Status" where
  "NewWithCode c = index statusList (val c)"

section \<open>Retry advice\<close>

type_synonym RetryAdvice = string

definition JustRetryFailingCall :: RetryAdvice where
  "JustRetryFailingCall = ''just_retry_failing_call''"

definition RetryAtHigherLevel :: RetryAdvice where
  "RetryAtHigherLevel = ''retry_at_higher_level''"

definition NotRetryUntilStateFixed :: RetryAdvice where
  "NotRetryUntilStateFixed = ''not_retry_until_state_fixed''"

definition NoAdvice :: RetryAdvice where
  "NoAdvice = ''no_advice''"

definition RetryAdvice :: "Status \<Rightarrow> RetryAdvice" where
  "RetryAdvice s =
     (if code s = CodeUnavailable then JustRetryFailingCall
      else if code s = CodeFailedPrecondition then NotRetryUntilStateFixed
      else if code s = CodeAborted \<or> code s = CodeResourceExhausted then RetryAtHigherLevel
      else NoAdvice)"

section \<open>HTTP statuses (package http) and the two mapping tables\<close>

text \<open>\<^verbatim>\<open>type Status int\<close> of package http is an \<^typ>\<open>int\<close>; a Go map literal is its list of entries.\<close>

definition http_StatusOK :: int where "http_StatusOK = 200"
definition http_StatusBadRequest :: int where "http_StatusBadRequest = 400"
definition http_StatusUnauthorized :: int where "http_StatusUnauthorized = 401"
definition http_StatusForbidden :: int where "http_StatusForbidden = 403"
definition http_StatusNotFound :: int where "http_StatusNotFound = 404"
definition http_StatusConflict :: int where "http_StatusConflict = 409"
definition http_StatusTooManyRequests :: int where "http_StatusTooManyRequests = 429"
definition http_StatusClientClosedRequest :: int where "http_StatusClientClosedRequest = 499"
definition http_StatusInternalServerError :: int where "http_StatusInternalServerError = 500"
definition http_StatusNotImplemented :: int where "http_StatusNotImplemented = 501"
definition http_StatusServiceUnavailable :: int where "http_StatusServiceUnavailable = 503"
definition http_StatusTimeout :: int where "http_StatusTimeout = 504"

lemmas http_defs =
  http_StatusOK_def http_StatusBadRequest_def http_StatusUnauthorized_def
  http_StatusForbidden_def http_StatusNotFound_def http_StatusConflict_def
  http_StatusTooManyRequests_def http_StatusClientClosedRequest_def
  http_StatusInternalServerError_def http_StatusNotImplemented_def
  http_StatusServiceUnavailable_def http_StatusTimeout_def

definition statusToName :: "(int \<times> string) list" where
  "statusToName =
     [(http_StatusOK, ''OK''),
      (http_StatusBadRequest, ''BadRequest''),
      (http_StatusUnauthorized, ''Unauthorized''),
      (http_StatusForbidden, ''Forbidden''),
      (http_StatusNotFound, ''NotFound''),
      (http_StatusConflict, ''Conflict''),
      (http_StatusTooManyRequests, ''TooManyRequests''),
      (http_StatusClientClosedRequest, ''ClientClosedRequest''),
      (http_StatusInternalServerError, ''InternalServerError''),
      (http_StatusNotImplemented, ''NotImplemented''),
      (http_StatusServiceUnavailable, ''ServiceUnavailable''),
      (http_StatusTimeout, ''Timeout'')]"

definition IsDefined :: "int \<Rightarrow> bool" where
  "IsDefined statusCode = (case map_of statusToName statusCode of None \<Rightarrow> False | Some n \<Rightarrow> True)"

definition codeToHTTPStatus :: "(Code \<times> int) list" where
  "codeToHTTPStatus =
     [(CodeOK, http_StatusOK),
      (CodeInvalidArgument, http_StatusBadRequest),
      (CodeFailedPrecondition, http_StatusBadRequest),
      (CodeOutOfRange, http_StatusBadRequest),
      (CodeUnauthenticated, http_StatusUnauthorized),
      (CodePermissionDenied, http_StatusForbidden),
      (CodeNotFound, http_StatusNotFound),
      (CodeAborted, http_StatusConflict),
      (CodeAlreadyExists, http_StatusConflict),
      (CodeResourceExhausted, http_StatusTooManyRequests),
      (CodeCancelled, http_StatusClientClosedRequest),
      (CodeDataLoss, http_StatusInternalServerError),
      (CodeUnknown, http_StatusInternalServerError),
      (CodeInternal, http_StatusInternalServerError),
      (CodeUnimplemented, http_StatusNotImplemented),
      (CodeUnavailable, http_StatusServiceUnavailable),
      (CodeDeadlineExceeded, http_StatusTimeout)]"

text \<open>\<^verbatim>\<open>func (c Code) toHTTPStatus() http.Status\<close>: a missing key reads as the zero value.\<close>

definition toHTTPStatus :: "Code \<Rightarrow> int" where
  "toHTTPStatus c = (case map_of codeToHTTPStatus c of None \<Rightarrow> 0 | Some h \<Rightarrow> h)"

definition httpStatusToOpStatus :: "(int \<times> (failure + Status)) list" where
  "httpStatusToOpStatus =
     [(http_StatusOK, StatusOK),
      (http_StatusBadRequest, StatusInvalidArgument),
      (http_StatusUnauthorized, StatusUnauthenticated),
      (http_StatusForbidden, StatusPermissionDenied),
      (http_StatusNotFound, StatusNotFound),
      (http_StatusConflict, StatusAlreadyExists),
      (http_StatusTooManyRequests, StatusResourceExhausted),
      (http_StatusClientClosedRequest, StatusCancelled),
      (http_StatusInternalServerError, StatusInternal),
      (http_StatusNotImplemented, StatusUnimplemented),
      (http_StatusServiceUnavailable, StatusUnavailable),
      (http_StatusTimeout, StatusDeadlineExceeded)]"

text \<open>The zero value \<^verbatim>\<open>Status{}\<close>, which a map read yields for a missing key.\<close>

definition zeroStatus :: Status where
  "zeroStatus = newStatus \<lparr>name = [], val = 0\<rparr>"

text \<open>
  \<^verbatim>\<open>NewByHTTPStatus\<close>.  The line written with \<^verbatim>\<open>log.Printf\<close> when the key is found
  does not change the result and is not part of the model.
\<close>

definition NewByHTTPStatus :: "int \<Rightarrow> failure + Status" where
  "NewByHTTPStatus statusCode =
     (if \<not> IsDefined statusCode then StatusUnknown
      else
        (case map_of httpStatusToOpStatus statusCode of
           None \<Rightarrow> Inr zeroStatus
         | Some opStatus \<Rightarrow> opStatus))"

section \<open>Errors (package error)\<close>

text \<open>The kinds of \<^verbatim>\<open>reflect.Kind\<close>.\<close>

datatype Kind =
    Invalid | Bool | Int | Int8 | Int16 | Int32 | Int64
  | Uint | Uint8 | Uint16 | Uint32 | Uint64 | Uintptr
  | Float32 | Float64 | Complex64 | Complex128
  | Array | Chan | Func | Interface | Map | Pointer | Slice | String | Struct
  | UnsafePointer

text \<open>
  A non-nil value of the interface type \<^verbatim>\<open>error\<close> holds a dynamic value.  It is
  either a \<^verbatim>\<open>*OpError\<close> (\<open>OpErrorPtr\<close>, with \<open>None\<close> for the nil pointer), or a value
  of a type declared elsewhere (\<open>Foreign\<close>), of which the model keeps what this package
  observes: the kind \<^verbatim>\<open>reflect.ValueOf\<close> reports, whether \<^verbatim>\<open>IsNil\<close> holds of it, and
  what \<^verbatim>\<open>errors.Unwrap\<close> returns for it.  \<^verbatim>\<open>type OpError struct { cause error; status *Status }\<close>.
  The nil interface is \<open>None\<close> of type \<open>goerror option\<close>.
\<close>

datatype goerror =
    OpErrorPtr "OpError option"
  | Foreign Kind bool "goerror option"
and OpError =
    OpError (cause: "goerror option") (status: "Status option")

type_synonym error = "goerror option"

definition NewWithStatus :: "Status \<Rightarrow> error" where
  "NewWithStatus st = Some (OpErrorPtr (Some (OpError None (Some st))))"

definition NewWithStatusAndCause :: "Status \<Rightarrow> error \<Rightarrow> error" where
  "NewWithStatusAndCause st c = Some (OpErrorPtr (Some (OpError c (Some st))))"

text \<open>\<^verbatim>\<open>func (e *OpError) Status() *Status\<close> and \<^verbatim>\<open>Cause\<close>, on the struct pointed to.\<close>

definition OpError_Status :: "OpError \<Rightarrow> Status option" where
  "OpError_Status e = status e"

definition OpError_Cause :: "OpError \<Rightarrow> error" where
  "OpError_Cause e = cause e"

text \<open>\<^verbatim>\<open>reflect.ValueOf(err).Kind()\<close> and \<^verbatim>\<open>reflect.ValueOf(err).IsNil()\<close> of a non-nil interface value.\<close>

fun reflect_Kind :: "goerror \<Rightarrow> Kind" where
  "reflect_Kind (OpErrorPtr p) = Pointer"
| "reflect_Kind (Foreign k n u) = k"

fun reflect_IsNil :: "goerror \<Rightarrow> bool" where
  "reflect_IsNil (OpErrorPtr p) = (p = None)"
| "reflect_IsNil (Foreign k n u) = n"

definition IsNil :: "error \<Rightarrow> bool" where
  "IsNil err =
     (case err of
        None \<Rightarrow> True
      | Some e \<Rightarrow>
          (case reflect_Kind e of
             Invalid \<Rightarrow> True
           | Chan \<Rightarrow> reflect_IsNil e
           | Func \<Rightarrow> reflect_IsNil e
           | Map \<Rightarrow> reflect_IsNil e
           | Pointer \<Rightarrow> reflect_IsNil e
           | UnsafePointer \<Rightarrow> reflect_IsNil e
           | Interface \<Rightarrow> reflect_IsNil e
           | Slice \<Rightarrow> reflect_IsNil e
           | _ \<Rightarrow> False))"

text \<open>
  \<^verbatim>\<open>errors.Unwrap\<close> calls the method \<^verbatim>\<open>Unwrap() error\<close> when the dynamic type has
  one and returns nil otherwise.  \<^verbatim>\<open>*OpError\<close> declares \<^verbatim>\<open>Status\<close>, \<^verbatim>\<open>Cause\<close> and
  \<^verbatim>\<open>Error\<close>, and no \<^verbatim>\<open>Unwrap\<close>.
\<close>

fun errors_Unwrap :: "error \<Rightarrow> error" where
  "errors_Unwrap None = None"
| "errors_Unwrap (Some (OpErrorPtr p)) = None"
| "errors_Unwrap (Some (Foreign k n u)) = u"

text \<open>
  The methods the source declares for \<^verbatim>\<open>OpError\<close>, each with its receiver:
  \<^verbatim>\<open>func (e *OpError) Status()\<close>, \<^verbatim>\<open>func (e *OpError) Cause()\<close>,
  \<^verbatim>\<open>func (e *OpError) Error()\<close>.  The method set of a type \<open>T\<close> holds the methods
  declared with receiver \<open>T\<close>; the method set of \<open>*T\<close> holds those declared with
  receiver \<open>T\<close> or \<open>*T\<close>.  A type implements \<^verbatim>\<open>error\<close> when its method set has
  \<^verbatim>\<open>Error\<close>.
\<close>

datatype receiver = ValueReceiver | PointerReceiver

definition OpError_methods :: "(string \<times> receiver) list" where
  "OpError_methods =
     [(''Status'', PointerReceiver), (''Cause'', PointerReceiver), (''Error'', PointerReceiver)]"

definition method_set :: "(string \<times> receiver) list \<Rightarrow> receiver \<Rightarrow> string list" where
  "method_set ms r = map fst (filter (\<lambda>m. r = PointerReceiver \<or> snd m = ValueReceiver) ms)"

definition implements_error :: "string list \<Rightarrow> bool" where
  "implements_error ms = (''Error'' \<in> set ms)"

text \<open>
  The search of \<^verbatim>\<open>errors.As\<close> for a link whose dynamic type is assignable to the
  struct type \<^verbatim>\<open>OpError\<close>: the dynamic type of a link is \<^verbatim>\<open>*OpError\<close> or a foreign
  type, never \<^verbatim>\<open>OpError\<close>, so no link matches, and the search follows
  \<^verbatim>\<open>Unwrap\<close> to the end of the chain.  Foreign types are taken to declare no method
  \<^verbatim>\<open>As\<close>.
\<close>

fun as_search :: "goerror \<Rightarrow> OpError option" where
  "as_search (OpErrorPtr p) = None"
| "as_search (Foreign k n u) = (case u of None \<Rightarrow> None | Some e \<Rightarrow> as_search e)"

text \<open>
  \<^verbatim>\<open>errors.As(err, target)\<close> at a target of type \<^verbatim>\<open>*OpError\<close>, as \<^verbatim>\<open>AsOpError\<close>
  calls it with \<^verbatim>\<open>&opErr\<close> for \<^verbatim>\<open>var opErr OpError\<close>.  A nil \<^verbatim>\<open>err\<close> gives false.
  Otherwise the type the target points to, \<^verbatim>\<open>OpError\<close>, must be an interface type or
  implement \<^verbatim>\<open>error\<close>, else \<^verbatim>\<open>errors.As\<close> panics with
  \<^verbatim>\<open>errors: *target must be interface or implement error\<close>.  The result is the value
  stored in the target, if any.
\<close>

definition errors_As :: "error \<Rightarrow> failure + OpError option" where
  "errors_As err =
     (case err of
        None \<Rightarrow> Inr None
      | Some e \<Rightarrow>
          if \<not> implements_error (method_set OpError_methods ValueReceiver)
          then Inl ErrorsAsTargetMustBeInterfaceOrImplementError
          else Inr (as_search e))"

text \<open>The zero value of \<^verbatim>\<open>OpError\<close>, the initial value of \<^verbatim>\<open>var opErr OpError\<close>.\<close>

definition zeroOpError :: OpError where
  "zeroOpError = OpError None None"

definition AsOpError :: "error \<Rightarrow> failure + (bool \<times> OpError)" where
  "AsOpError err =
     (case errors_As err of
        Inl f \<Rightarrow> Inl f
      | Inr None \<Rightarrow> Inr (False, zeroOpError)
      | Inr (Some found) \<Rightarrow> Inr (True, found))"

text \<open>The number of links that \<^verbatim>\<open>errors.Unwrap\<close> can follow from an error.\<close>

fun links :: "goerror \<Rightarrow> nat" where
  "links (OpErrorPtr p) = 0"
| "links (Foreign k n u) = (case u of None \<Rightarrow> 0 | Some e \<Rightarrow> Suc (links e))"

definition chain_length :: "error \<Rightarrow> nat" where
  "chain_length err = (case err of None \<Rightarrow> 0 | Some e \<Rightarrow> Suc (links e))"

text \<open>
  The loop \<^verbatim>\<open>for !IsNil(cause) { ... cause = errors.Unwrap(cause) }\<close> of
  \<^verbatim>\<open>StatusFromErrChain\<close>; the loop variable \<^verbatim>\<open>cause\<close> is \<open>cur\<close> here.
\<close>

function StatusFromErrChain_loop :: "error \<Rightarrow> failure + Status option" where
  "StatusFromErrChain_loop cur =
     (if IsNil cur then Inr None
      else
        (case AsOpError cur of
           Inl f \<Rightarrow> Inl f
         | Inr (match, opErr) \<Rightarrow>
             if match then Inr (OpError_Status opErr)
             else StatusFromErrChain_loop (errors_Unwrap cur)))"
  by pat_completeness auto
termination
proof (relation "measure chain_length")
  show "wf (measure chain_length)" by simp
next
  fix cur :: error
  assume "\<not> IsNil cur"
  then obtain e where e: "cur = Some e"
    by (cases cur) (simp_all add: IsNil_def)
  show "(errors_Unwrap cur, cur) \<in> measure chain_length"
    unfolding e by (cases e) (simp_all add: chain_length_def split: option.splits)
qed

declare StatusFromErrChain_loop.simps [simp del]

definition StatusFromErrChain :: "error \<Rightarrow> failure + Status option" where
  "StatusFromErrChain err =
     (if IsNil err then Inr None else StatusFromErrChain_loop err)"

section \<open>The registry\<close>

lemma codeList_appended_distinct: "distinct (map val codeList_appended)"
  by (simp add: codeList_appended_def Code_defs)

lemma filter_eq_singleton:
  "distinct xs \<Longrightarrow> k \<in> set xs \<Longrightarrow> filter (\<lambda>x. x = k) xs = [k]"
proof (induction xs)
  case Nil
  then show ?case by simp
next
  case (Cons a xs)
  show ?case
  proof (cases "a = k")
    case True
    then have "k \<notin> set xs" using Cons.prems(1) by simp
    then have "filter (\<lambda>x. x = k) xs = []" by (auto simp: filter_empty_conv)
    then show ?thesis using True by simp
  next
    case False
    then show ?thesis using Cons by auto
  qed
qed

lemma sort_by_val_unique:
  assumes "mset ys = mset xs" and "sorted (map val ys)" and "distinct (map val xs)"
  shows "sort_key val xs = ys"
proof (rule properties_for_sort_key)
  show "mset ys = mset xs" by (rule assms(1))
next
  show "sorted (map val ys)" by (rule assms(2))
next
  fix k assume "k \<in> set ys"
  have inj: "inj_on val (set xs)"
    using assms(3) by (simp add: distinct_map)
  have "set ys = set xs"
    using assms(1) by (rule mset_eq_setD)
  have "distinct xs"
    using assms(3) by (simp add: distinct_map)
  have "distinct ys"
    using \<open>distinct xs\<close> assms(1) by (metis mset_eq_imp_distinct_iff)
  have "filter (\<lambda>x. val k = val x) ys = [k]"
  proof -
    have "\<And>x. x \<in> set ys \<Longrightarrow> (val k = val x) = (x = k)"
      using inj \<open>k \<in> set ys\<close> \<open>set ys = set xs\<close> by (auto dest: inj_onD)
    then have "filter (\<lambda>x. val k = val x) ys = filter (\<lambda>x. x = k) ys"
      by (auto intro: filter_cong)
    also have "\<dots> = [k]"
      using \<open>distinct ys\<close> \<open>k \<in> set ys\<close> by (rule filter_eq_singleton)
    finally show ?thesis .
  qed
  moreover have "filter (\<lambda>x. val k = val x) xs = [k]"
  proof -
    have "k \<in> set xs" using \<open>k \<in> set ys\<close> \<open>set ys = set xs\<close> by simp
    have "\<And>x. x \<in> set xs \<Longrightarrow> (val k = val x) = (x = k)"
      using inj \<open>k \<in> set xs\<close> by (auto dest: inj_onD)
    then have "filter (\<lambda>x. val k = val x) xs = filter (\<lambda>x. x = k) xs"
      by (auto intro: filter_cong)
    also have "\<dots> = [k]"
      using \<open>distinct xs\<close> \<open>k \<in> set xs\<close> by (rule filter_eq_singleton)
    finally show ?thesis .
  qed
  ultimately show "filter (\<lambda>x. val k = val x) ys = filter (\<lambda>x. val k = val x) xs"
    by simp
qed

lemma codeList_eq:
  "codeList =
     [CodeOK, CodeCancelled, CodeUnknown, CodeInvalidArgument, CodeDeadlineExceeded,
      CodeNotFound, CodeAlreadyExists, CodePermissionDenied, CodeResourceExhausted,
      CodeFailedPrecondition, CodeAborted, CodeOutOfRange, CodeUnimplemented,
      CodeInternal, CodeUnavailable, CodeDataLoss, CodeUnauthenticated]"
  by (simp add: codeList_def codeList_appended_def Code_defs)

lemma length_codeList: "length codeList = 17"
  by (simp add: codeList_eq)

lemma map_val_codeList: "map val codeList = map int [0..<17]"
  by (simp add: codeList_eq Code_defs upt_rec)

lemma length_statusList: "length statusList = 17"
  by (simp add: statusList_def length_codeList)

lemma val_codeList_nth: "i < 17 \<Longrightarrow> val (codeList ! i) = int i"
proof -
  assume "i < 17"
  then have "val (codeList ! i) = map val codeList ! i"
    by (simp add: length_codeList)
  also have "\<dots> = int i"
    using \<open>i < 17\<close> by (simp only: map_val_codeList) simp
  finally show ?thesis .
qed

text \<open>
  C4.  The finalized registry \<open>codeList\<close> holds exactly 17 codes, their values are
  pairwise distinct and are exactly 0..16 in this order, so the by-value index has no
  gaps: for every index \<open>i\<close> below 17 the code at index \<open>i\<close> of \<open>codeList\<close> has value
  \<open>i\<close>, and so has the code of the prototype at index \<open>i\<close> of \<open>statusList\<close>.
\<close>

theorem registry_has_no_gaps:
  "length codeList = 17 \<and> length statusList = 17 \<and> distinct (map val codeList) \<and>
   map val codeList = map int [0..<17] \<and>
   (\<forall>i. i < 17 \<longrightarrow> val (codeList ! i) = int i \<and> val (code (statusList ! i)) = int i)"
proof -
  have "distinct (map val codeList)"
    by (simp only: map_val_codeList) (simp add: distinct_map)
  moreover have "\<forall>i. i < 17 \<longrightarrow> val (codeList ! i) = int i \<and> val (code (statusList ! i)) = int i"
    by (simp add: statusList_def length_codeList newStatus_def val_codeList_nth)
  ultimately show ?thesis
    by (simp add: length_codeList length_statusList map_val_codeList)
qed

theorem registry_has_no_gaps_witness:
  "(8::nat) < 17 \<and> val (codeList ! 8) = 8 \<and> val (code (statusList ! 8)) = 8 \<and>
   codeList ! 8 = CodeResourceExhausted \<and> codeList_appended ! 8 = CodeUnauthenticated"
proof -
  have "(8::nat) < 17 \<longrightarrow> val (codeList ! 8) = int 8 \<and> val (code (statusList ! 8)) = int 8"
    using registry_has_no_gaps by blast
  moreover have "codeList ! 8 = CodeResourceExhausted"
    by (simp add: codeList_eq)
  moreover have "codeList_appended ! 8 = CodeUnauthenticated"
    by (simp add: codeList_appended_def)
  ultimately show ?thesis by simp
qed

section \<open>Facts about the tables\<close>

lemma statusList_eq:
  "statusList = map newStatus
     [CodeOK, CodeCancelled, CodeUnknown, CodeInvalidArgument, CodeDeadlineExceeded,
      CodeNotFound, CodeAlreadyExists, CodePermissionDenied, CodeResourceExhausted,
      CodeFailedPrecondition, CodeAborted, CodeOutOfRange, CodeUnimplemented,
      CodeInternal, CodeUnavailable, CodeDataLoss, CodeUnauthenticated]"
  by (simp only: statusList_def codeList_eq)

lemma index_statusList:
  assumes "0 \<le> v" and "v < 17"
  shows "index statusList v = Inr (newStatus (codeList ! nat v))"
  using assms by (simp add: index_def length_statusList statusList_def length_codeList)

lemma prototypes:
  "StatusOK = Inr (newStatus CodeOK)"
  "StatusCancelled = Inr (newStatus CodeCancelled)"
  "StatusUnknown = Inr (newStatus CodeUnknown)"
  "StatusInvalidArgument = Inr (newStatus CodeInvalidArgument)"
  "StatusDeadlineExceeded = Inr (newStatus CodeDeadlineExceeded)"
  "StatusNotFound = Inr (newStatus CodeNotFound)"
  "StatusAlreadyExists = Inr (newStatus CodeAlreadyExists)"
  "StatusPermissionDenied = Inr (newStatus CodePermissionDenied)"
  "StatusUnauthenticated = Inr (newStatus CodeUnauthenticated)"
  "StatusResourceExhausted = Inr (newStatus CodeResourceExhausted)"
  "StatusFailedPrecondition = Inr (newStatus CodeFailedPrecondition)"
  "StatusAborted = Inr (newStatus CodeAborted)"
  "StatusOutOfRange = Inr (newStatus CodeOutOfRange)"
  "StatusUnimplemented = Inr (newStatus CodeUnimplemented)"
  "StatusInternal = Inr (newStatus CodeInternal)"
  "StatusUnavailable = Inr (newStatus CodeUnavailable)"
  "StatusDataLoss = Inr (newStatus CodeDataLoss)"
  by (simp_all add: Status_defs toStatus_def index_def length_statusList)
     (simp_all add: statusList_eq Code_defs)

lemma TrimSpace_hi: "TrimSpace ''  hi  '' = ''hi''"
  by code_simp

lemma TrimSpace_x: "TrimSpace ''x'' = ''x''"
  by code_simp

lemma TrimSpace_a_x: "TrimSpace ''a\<newline>x'' = ''a\<newline>x''"
  by code_simp

section \<open>Retry advice by code\<close>

text \<open>
  C6.  \<open>RetryAdvice\<close> of a Status is \<open>just_retry_failing_call\<close> if and only if its code
  is \<open>CodeUnavailable\<close>, \<open>not_retry_until_state_fixed\<close> if and only if its code is
  \<open>CodeFailedPrecondition\<close>, \<open>retry_at_higher_level\<close> exactly for \<open>CodeAborted\<close> and
  \<open>CodeResourceExhausted\<close>, and \<open>no_advice\<close> exactly for every other code.
\<close>

theorem RetryAdvice_by_code:
  "(RetryAdvice s = JustRetryFailingCall \<longleftrightarrow> code s = CodeUnavailable) \<and>
   (RetryAdvice s = NotRetryUntilStateFixed \<longleftrightarrow> code s = CodeFailedPrecondition) \<and>
   (RetryAdvice s = RetryAtHigherLevel \<longleftrightarrow> code s = CodeAborted \<or> code s = CodeResourceExhausted) \<and>
   (RetryAdvice s = NoAdvice \<longleftrightarrow>
      code s \<notin> {CodeUnavailable, CodeFailedPrecondition, CodeAborted, CodeResourceExhausted})"
  by (simp add: RetryAdvice_def JustRetryFailingCall_def NotRetryUntilStateFixed_def
      RetryAtHigherLevel_def NoAdvice_def Code_defs)

section \<open>Deriving descriptions\<close>

text \<open>
  C10.  For every Status \<open>s\<close>: the description of \<open>WithDescription s d\<close> is \<open>d\<close>
  without its leading and trailing white space, so \<open>WithDescription s "  hi  "\<close> has the
  description \<open>"hi"\<close>; \<open>AugmentDescription s ""\<close> is \<open>s\<close> itself in every field; when the
  description of \<open>s\<close> is \<open>"a"\<close>, \<open>AugmentDescription s "x"\<close> has the description
  \<open>"a\nx"\<close>, and when it is empty, the description \<open>"x"\<close>.
\<close>

theorem description_derivations:
  "description (WithDescription s d) = TrimSpace d \<and>
   description (WithDescription s ''  hi  '') = ''hi'' \<and>
   AugmentDescription s [] = s \<and>
   (description s = ''a'' \<longrightarrow> description (AugmentDescription s ''x'') = ''a\<newline>x'') \<and>
   (description s = [] \<longrightarrow> description (AugmentDescription s ''x'') = ''x'')"
  by (simp add: WithDescription_def AugmentDescription_def Let_def
      TrimSpace_hi TrimSpace_x TrimSpace_a_x)

theorem description_derivations_witness:
  "description (WithDescription (newStatus CodeNotFound) ''a'') = ''a'' \<and>
   description (AugmentDescription (WithDescription (newStatus CodeNotFound) ''a'') ''x'') =
     ''a\<newline>x'' \<and>
   description (newStatus CodeNotFound) = [] \<and>
   description (AugmentDescription (newStatus CodeNotFound) ''x'') = ''x''"
proof -
  have a: "TrimSpace ''a'' = ''a''"
    by code_simp
  have e: "description (newStatus CodeNotFound) = []"
    by (simp add: newStatus_def)
  show ?thesis
    using description_derivations [where s = "newStatus CodeNotFound" and d = "''a''"]
      description_derivations
        [where s = "WithDescription (newStatus CodeNotFound) ''a''" and d = "''a''"]
    by (simp add: a e)
qed

section \<open>The nil test and the walk of the error chain\<close>

lemma IsNil_None: "IsNil None"
  by (simp add: IsNil_def)

lemma IsNil_Some:
  "IsNil (Some e) \<longleftrightarrow>
     reflect_Kind e = Invalid \<or>
     (reflect_Kind e \<in> {Chan, Func, Map, Pointer, UnsafePointer, Interface, Slice} \<and> reflect_IsNil e)"
  by (cases "reflect_Kind e") (simp_all add: IsNil_def)

text \<open>
  C5.  \<open>IsNil err\<close> holds exactly when \<open>err\<close> is the nil interface, or the kind of
  its dynamic value is \<open>Invalid\<close>, or that kind is one of \<open>Chan\<close>, \<open>Func\<close>, \<open>Map\<close>,
  \<open>Pointer\<close>, \<open>UnsafePointer\<close>, \<open>Interface\<close>, \<open>Slice\<close> and the value is nil; it is
  false of every other non-nil error.  \<open>StatusFromErrChain\<close> treats an error of which
  \<open>IsNil\<close> holds as absent: it returns nil, without a panic.
\<close>

theorem IsNil_kind_by_kind:
  "(IsNil err \<longleftrightarrow>
      err = None \<or>
      (\<exists>e. err = Some e \<and>
         (reflect_Kind e = Invalid \<or>
          (reflect_Kind e \<in> {Chan, Func, Map, Pointer, UnsafePointer, Interface, Slice} \<and>
           reflect_IsNil e)))) \<and>
   (IsNil err \<longrightarrow> StatusFromErrChain err = Inr None)"
proof (cases err)
  case None
  then show ?thesis by (simp add: IsNil_None StatusFromErrChain_def)
next
  case (Some e)
  then show ?thesis by (simp add: IsNil_Some StatusFromErrChain_def)
qed

theorem IsNil_kind_by_kind_witness:
  "IsNil (Some (OpErrorPtr None)) \<and> StatusFromErrChain (Some (OpErrorPtr None)) = Inr None \<and>
   \<not> IsNil (Some (Foreign Struct False None))"
  using IsNil_kind_by_kind [of "Some (OpErrorPtr None)"]
    IsNil_kind_by_kind [of "Some (Foreign Struct False None)"]
  by simp

text \<open>
  The struct type \<open>OpError\<close> has an empty method set; \<open>*OpError\<close> has the three
  methods.  So \<open>AsOpError\<close> panics on every non-nil error, and with it
  \<open>StatusFromErrChain\<close> on every error of which \<open>IsNil\<close> does not hold.
\<close>

lemma OpError_value_not_error:
  "\<not> implements_error (method_set OpError_methods ValueReceiver)"
  by (simp add: implements_error_def method_set_def OpError_methods_def)

lemma OpError_pointer_is_error:
  "implements_error (method_set OpError_methods PointerReceiver)"
  by (simp add: implements_error_def method_set_def OpError_methods_def)

lemma AsOpError_panics: "AsOpError (Some e) = Inl ErrorsAsTargetMustBeInterfaceOrImplementError"
  by (simp add: AsOpError_def errors_As_def OpError_value_not_error)

lemma non_nil_error_panics:
  assumes "\<not> IsNil err"
  shows "StatusFromErrChain err = Inl ErrorsAsTargetMustBeInterfaceOrImplementError"
proof -
  from assms obtain e where "err = Some e"
    by (cases err) (simp_all add: IsNil_None)
  with assms show ?thesis
    by (simp add: StatusFromErrChain_def StatusFromErrChain_loop.simps AsOpError_panics)
qed

text \<open>
  C1.  What \<open>StatusFromErrChain\<close> does: for the nil error it returns nil.  For an error
  that is a non-nil \<open>*OpError\<close>, for a chain of three links whose innermost link alone is
  an \<open>*OpError\<close>, and for a chain without an \<open>*OpError\<close>, the first call of
  \<open>AsOpError\<close> panics inside \<open>errors.As\<close>, because the target \<open>&opErr\<close> points to the
  struct type \<open>OpError\<close>, which does not implement \<open>error\<close>; no status and no nil is
  returned.
\<close>

theorem StatusFromErrChain_panics_on_error_chains:
  "StatusFromErrChain None = Inr None \<and>
   StatusFromErrChain (NewWithStatus (newStatus CodeNotFound)) =
     Inl ErrorsAsTargetMustBeInterfaceOrImplementError \<and>
   StatusFromErrChain
     (Some (Foreign Pointer False (Some (Foreign Pointer False
        (NewWithStatus (newStatus CodeNotFound)))))) =
     Inl ErrorsAsTargetMustBeInterfaceOrImplementError \<and>
   StatusFromErrChain (Some (Foreign Pointer False None)) =
     Inl ErrorsAsTargetMustBeInterfaceOrImplementError"
  by (simp add: StatusFromErrChain_def StatusFromErrChain_loop.simps AsOpError_panics
      IsNil_None IsNil_Some NewWithStatus_def)

section \<open>The factories by code and by code value\<close>

text \<open>
  C7.  For every canonical code \<open>c\<close> (every element of \<open>codeList\<close>), \<open>NewWithCode c\<close>
  returns a Status whose code is \<open>c\<close>, and \<open>NewWithCodeValue (Value c)\<close> returns the same
  Status as \<open>NewWithCode c\<close>.
\<close>

theorem NewWithCode_roundtrip:
  assumes "c \<in> set codeList"
  shows "(\<exists>s. NewWithCode c = Inr s \<and> code s = c) \<and>
         NewWithCodeValue (Value c) = NewWithCode c"
proof -
  from assms obtain i where i: "i < 17" and c: "c = codeList ! i"
    by (auto simp: in_set_conv_nth length_codeList)
  have v: "val c = int i"
    using i c by (simp add: val_codeList_nth)
  have "NewWithCode c = Inr (newStatus c)"
    using i by (simp add: NewWithCode_def v index_statusList c [symmetric])
  moreover have "NewWithCodeValue (Value c) = index statusList (val c)"
    using i by (simp add: NewWithCodeValue_def Value_def v length_statusList)
  ultimately show ?thesis
    by (simp add: NewWithCode_def newStatus_def)
qed

theorem NewWithCode_roundtrip_witness:
  "CodeUnauthenticated \<in> set codeList \<and>
   NewWithCode CodeUnauthenticated = Inr (newStatus CodeUnauthenticated) \<and>
   NewWithCodeValue 16 = NewWithCode CodeUnauthenticated"
proof -
  have m: "CodeUnauthenticated \<in> set codeList"
    by (simp add: codeList_eq)
  have "Value CodeUnauthenticated = 16"
    by (simp add: Value_def Code_defs)
  moreover have "NewWithCode CodeUnauthenticated = Inr (newStatus CodeUnauthenticated)"
    by (simp add: NewWithCode_def index_def length_statusList Code_defs)
       (simp add: statusList_eq Code_defs)
  ultimately show ?thesis
    using NewWithCode_roundtrip [OF m] m by simp
qed

section \<open>HTTP statuses and back\<close>

lemma IsDefined_iff:
  "IsDefined v \<longleftrightarrow> v \<in> {200, 400, 401, 403, 404, 409, 429, 499, 500, 501, 503, 504}"
  by (simp add: IsDefined_def statusToName_def http_defs)

lemma NewByHTTPStatus_defined:
  "NewByHTTPStatus 200 = Inr (newStatus CodeOK)"
  "NewByHTTPStatus 400 = Inr (newStatus CodeInvalidArgument)"
  "NewByHTTPStatus 401 = Inr (newStatus CodeUnauthenticated)"
  "NewByHTTPStatus 403 = Inr (newStatus CodePermissionDenied)"
  "NewByHTTPStatus 404 = Inr (newStatus CodeNotFound)"
  "NewByHTTPStatus 409 = Inr (newStatus CodeAlreadyExists)"
  "NewByHTTPStatus 429 = Inr (newStatus CodeResourceExhausted)"
  "NewByHTTPStatus 499 = Inr (newStatus CodeCancelled)"
  "NewByHTTPStatus 500 = Inr (newStatus CodeInternal)"
  "NewByHTTPStatus 501 = Inr (newStatus CodeUnimplemented)"
  "NewByHTTPStatus 503 = Inr (newStatus CodeUnavailable)"
  "NewByHTTPStatus 504 = Inr (newStatus CodeDeadlineExceeded)"
  by (simp_all add: NewByHTTPStatus_def IsDefined_iff httpStatusToOpStatus_def http_defs
      prototypes)

lemma wire_of_canonical:
  "\<forall>c \<in> set codeList.
      map_of codeToHTTPStatus c = Some (toHTTPStatus c) \<and> IsDefined (toHTTPStatus c) \<and>
      NewByHTTPStatus (toHTTPStatus c) =
        Inr (newStatus
          (if toHTTPStatus c = 400 then CodeInvalidArgument
           else if toHTTPStatus c = 409 then CodeAlreadyExists
           else if toHTTPStatus c = 500 then CodeInternal
           else c))"
  unfolding codeList_eq
  by (simp add: toHTTPStatus_def codeToHTTPStatus_def http_defs Code_defs IsDefined_iff
      NewByHTTPStatus_defined [unfolded Code_defs])

text \<open>
  C8.  For every canonical code \<open>c\<close>, \<open>codeToHTTPStatus\<close> has exactly one entry for
  \<open>c\<close>, its HTTP status is a defined one, and \<open>NewByHTTPStatus\<close> applied to it does not
  fail and returns the prototype of a fixed representative: \<open>CodeInvalidArgument\<close> for
  400, \<open>CodeAlreadyExists\<close> for 409, \<open>CodeInternal\<close> for 500, and \<open>c\<close> itself for
  every other HTTP status.
\<close>

theorem wire_roundtrip_representative:
  "(c \<in> set codeList \<longrightarrow>
      map_of codeToHTTPStatus c = Some (toHTTPStatus c) \<and> IsDefined (toHTTPStatus c) \<and>
      NewByHTTPStatus (toHTTPStatus c) =
        Inr (newStatus
          (if toHTTPStatus c = 400 then CodeInvalidArgument
           else if toHTTPStatus c = 409 then CodeAlreadyExists
           else if toHTTPStatus c = 500 then CodeInternal
           else c))) \<and>
   distinct (map fst codeToHTTPStatus)"
proof -
  have "distinct (map fst codeToHTTPStatus)"
    by (simp add: codeToHTTPStatus_def Code_defs)
  then show ?thesis
    using wire_of_canonical by blast
qed

theorem wire_roundtrip_representative_witness:
  "CodeDataLoss \<in> set codeList \<and> toHTTPStatus CodeDataLoss = 500 \<and>
   NewByHTTPStatus (toHTTPStatus CodeDataLoss) = Inr (newStatus CodeInternal) \<and>
   CodeNotFound \<in> set codeList \<and> toHTTPStatus CodeNotFound = 404 \<and>
   NewByHTTPStatus (toHTTPStatus CodeNotFound) = Inr (newStatus CodeNotFound)"
proof -
  have m: "CodeDataLoss \<in> set codeList" "CodeNotFound \<in> set codeList"
    by (simp_all add: codeList_eq)
  have h: "toHTTPStatus CodeDataLoss = 500" "toHTTPStatus CodeNotFound = 404"
    by (simp_all add: toHTTPStatus_def codeToHTTPStatus_def http_defs Code_defs)
  show ?thesis
    using wire_roundtrip_representative [of CodeDataLoss]
      wire_roundtrip_representative [of CodeNotFound] m h
    by simp
qed

text \<open>
  C9.  \<open>IsDefined v\<close> holds exactly for the twelve HTTP statuses of \<open>statusToName\<close>.
  For every \<open>v\<close> that is not defined, \<open>NewByHTTPStatus v\<close> does not fail and returns the
  prototype of \<open>CodeUnknown\<close> unchanged, with code \<open>CodeUnknown\<close> and the empty
  description.  For every \<open>v\<close> that is defined, \<open>httpStatusToOpStatus\<close> has an entry,
  which is returned: \<open>IsDefined\<close> alone decides.
\<close>

theorem NewByHTTPStatus_undefined:
  "(IsDefined v \<longleftrightarrow> v \<in> {200, 400, 401, 403, 404, 409, 429, 499, 500, 501, 503, 504}) \<and>
   (\<not> IsDefined v \<longrightarrow>
      NewByHTTPStatus v = Inr (newStatus CodeUnknown) \<and>
      map_sum id code (NewByHTTPStatus v) = Inr CodeUnknown \<and>
      map_sum id description (NewByHTTPStatus v) = Inr []) \<and>
   (IsDefined v \<longrightarrow>
      (\<exists>st. map_of httpStatusToOpStatus v = Some (Inr st) \<and> NewByHTTPStatus v = Inr st))"
proof (intro conjI impI)
  show "IsDefined v \<longleftrightarrow> v \<in> {200, 400, 401, 403, 404, 409, 429, 499, 500, 501, 503, 504}"
    by (rule IsDefined_iff)
next
  assume "\<not> IsDefined v"
  then have "NewByHTTPStatus v = Inr (newStatus CodeUnknown)"
    by (simp add: NewByHTTPStatus_def prototypes)
  then show "NewByHTTPStatus v = Inr (newStatus CodeUnknown)"
    and "map_sum id code (NewByHTTPStatus v) = Inr CodeUnknown"
    and "map_sum id description (NewByHTTPStatus v) = Inr []"
    by (simp_all add: newStatus_def)
next
  assume d: "IsDefined v"
  then have "v \<in> {200, 400, 401, 403, 404, 409, 429, 499, 500, 501, 503, 504}"
    by (simp only: IsDefined_iff)
  then have "\<exists>st. map_of httpStatusToOpStatus v = Some (Inr st)"
    by (auto simp: httpStatusToOpStatus_def http_defs prototypes)
  then show "\<exists>st. map_of httpStatusToOpStatus v = Some (Inr st) \<and> NewByHTTPStatus v = Inr st"
    using d by (auto simp: NewByHTTPStatus_def)
qed

theorem NewByHTTPStatus_undefined_witness:
  "\<not> IsDefined 999 \<and> NewByHTTPStatus 999 = Inr (newStatus CodeUnknown) \<and>
   IsDefined 404 \<and> NewByHTTPStatus 404 = Inr (newStatus CodeNotFound)"
proof -
  have "\<not> IsDefined 999" "IsDefined 404"
    by (simp_all add: IsDefined_iff)
  moreover have "map_of httpStatusToOpStatus 404 = Some (Inr (newStatus CodeNotFound))"
    by (simp add: httpStatusToOpStatus_def http_defs prototypes)
  ultimately show ?thesis
    using NewByHTTPStatus_undefined [of 999] NewByHTTPStatus_undefined [of 404] by auto
qed

section \<open>The description of an unknown code value\<close>

text \<open>
  A string that starts with \<open>U\<close> and ends with \<open>]\<close> has no white space to trim, and
  the one operand that \<open>WithDescriptionf\<close> hands to \<open>Sprintf\<close> is a slice.  So for every
  code value out of range the description holds the value between brackets.
\<close>

lemma space_encodings_last:
  "\<forall>e \<in> set space_encodings. e \<noteq> [] \<and> last e \<in> {CHR 0x09, CHR 0x0A, CHR 0x0B, CHR 0x0C, CHR 0x0D, CHR 0x20,
      CHR 0x85, CHR 0xA0, CHR 0x80, CHR 0x81, CHR 0x82, CHR 0x83, CHR 0x84, CHR 0x86, CHR 0x87,
      CHR 0x88, CHR 0x89, CHR 0x8A, CHR 0xA8, CHR 0xA9, CHR 0xAF, CHR 0x9F}"
  by (simp add: space_encodings_def)

lemma space_encodings_hd:
  "\<forall>e \<in> set space_encodings. e \<noteq> [] \<and> hd e \<in> {CHR 0x09, CHR 0x0A, CHR 0x0B, CHR 0x0C, CHR 0x0D, CHR 0x20,
      CHR 0xC2, CHR 0xE1, CHR 0xE2, CHR 0xE3}"
  by (simp add: space_encodings_def)

lemma space_prefix_zero:
  assumes "c \<notin> {CHR 0x09, CHR 0x0A, CHR 0x0B, CHR 0x0C, CHR 0x0D, CHR 0x20,
      CHR 0xC2, CHR 0xE1, CHR 0xE2, CHR 0xE3}"
  shows "space_prefix (c # cs) = 0"
proof -
  have "\<not> (take (length e) (c # cs) = e)" if "e \<in> set space_encodings" for e
  proof
    assume eq: "take (length e) (c # cs) = e"
    from that space_encodings_hd have ne: "e \<noteq> []" and h: "hd e \<in> {CHR 0x09, CHR 0x0A, CHR 0x0B, CHR 0x0C, CHR 0x0D, CHR 0x20,
      CHR 0xC2, CHR 0xE1, CHR 0xE2, CHR 0xE3}" by blast+
    from ne obtain x xs where e: "e = x # xs" by (cases e) auto
    with eq have "x = c" by simp
    with h e assms show False by simp
  qed
  then have "find (\<lambda>e. take (length e) (c # cs) = e) space_encodings = None"
    by (simp add: find_None_iff)
  then show ?thesis by (simp add: space_prefix_def)
qed

lemma space_suffix_zero:
  assumes "c \<notin> {CHR 0x09, CHR 0x0A, CHR 0x0B, CHR 0x0C, CHR 0x0D, CHR 0x20,
      CHR 0x85, CHR 0xA0, CHR 0x80, CHR 0x81, CHR 0x82, CHR 0x83, CHR 0x84, CHR 0x86, CHR 0x87,
      CHR 0x88, CHR 0x89, CHR 0x8A, CHR 0xA8, CHR 0xA9, CHR 0xAF, CHR 0x9F}"
  shows "space_suffix (cs @ [c]) = 0"
proof -
  let ?s = "cs @ [c]"
  have "\<not> (length e \<le> length ?s \<and> drop (length ?s - length e) ?s = e)"
    if "e \<in> set space_encodings" for e
  proof
    assume eq: "length e \<le> length ?s \<and> drop (length ?s - length e) ?s = e"
    from that space_encodings_last have ne: "e \<noteq> []" and l: "last e \<in> {CHR 0x09, CHR 0x0A, CHR 0x0B, CHR 0x0C, CHR 0x0D, CHR 0x20,
      CHR 0x85, CHR 0xA0, CHR 0x80, CHR 0x81, CHR 0x82, CHR 0x83, CHR 0x84, CHR 0x86, CHR 0x87,
      CHR 0x88, CHR 0x89, CHR 0x8A, CHR 0xA8, CHR 0xA9, CHR 0xAF, CHR 0x9F}" by blast+
    have "length ?s - length e < length ?s"
      using ne by (cases e) simp_all
    then have "last (drop (length ?s - length e) ?s) = last ?s"
      by (rule last_drop)
    with eq have "last e = c" by simp
    with l assms show False by simp
  qed
  then have "find (\<lambda>e. length e \<le> length ?s \<and> drop (length ?s - length e) ?s = e) space_encodings = None"
    by (simp add: find_None_iff)
  then show ?thesis by (simp add: space_suffix_def)
qed

lemma TrimSpace_bracketed:
  "TrimSpace (''Unknown op status code: ['' @ xs @ '']'') = ''Unknown op status code: ['' @ xs @ '']''"
proof -
  let ?r = "''nknown op status code: ['' @ xs"
  have s: "''Unknown op status code: ['' @ xs @ '']'' = CHR ''U'' # ?r @ '']''" by simp
  have "space_prefix (CHR ''U'' # ?r @ '']'') = 0"
    by (rule space_prefix_zero) simp
  then have l: "TrimLeftSpace (CHR ''U'' # ?r @ '']'') = CHR ''U'' # ?r @ '']''"
    by (subst TrimLeftSpace.simps) simp
  have "space_suffix ((CHR ''U'' # ?r) @ '']'') = 0"
    by (rule space_suffix_zero) simp
  then have "TrimRightSpace ((CHR ''U'' # ?r) @ '']'') = (CHR ''U'' # ?r) @ '']''"
    by (subst TrimRightSpace.simps) simp
  then have r: "TrimRightSpace (CHR ''U'' # ?r @ '']'') = CHR ''U'' # ?r @ '']''"
    by simp
  show ?thesis
    unfolding s TrimSpace_def l r ..
qed

lemma Sprintf_unknown_code:
  "Sprintf ''Unknown op status code: %v'' [a] = Inr (''Unknown op status code: '' @ format_v a)"
  by (simp add: extraOperands_def)

lemma NewWithCodeValue_out_of_range:
  assumes "v < 0 \<or> 17 \<le> v"
  shows "NewWithCodeValue v =
     Inr \<lparr>code = CodeUnknown, theCase = None,
          description = ''Unknown op status code: ['' @ Itoa v @ '']'',
          details = Some Map.empty\<rparr>"
proof -
  have "WithDescriptionf (newStatus CodeUnknown) ''Unknown op status code: %v'' [AnyInt v] =
        Inr (WithDescription (newStatus CodeUnknown) (''Unknown op status code: ['' @ Itoa v @ '']''))"
    by (simp only: WithDescriptionf_def Sprintf_unknown_code) simp
  moreover have "WithDescription (newStatus CodeUnknown) (''Unknown op status code: ['' @ Itoa v @ '']'') =
      \<lparr>code = CodeUnknown, theCase = None,
          description = ''Unknown op status code: ['' @ Itoa v @ '']'',
          details = Some Map.empty\<rparr>"
    by (simp only: WithDescription_def TrimSpace_bracketed Let_def)
       (simp add: newStatus_def copyDetails_def)
  ultimately show ?thesis
    using assms by (simp add: NewWithCodeValue_def length_statusList prototypes)
qed

text \<open>
  C2.  What \<open>NewWithCodeValue\<close> does at \<open>-1\<close> and at \<open>999\<close>: it does not fail and
  returns a Status with code \<open>CodeUnknown\<close>, but the description is
  \<open>"Unknown op status code: [-1]"\<close> and \<open>"Unknown op status code: [999]"\<close>, the value
  between brackets, and not \<open>"Unknown op status code: "\<close> followed by the value.
\<close>

theorem NewWithCodeValue_description_is_bracketed:
  "NewWithCodeValue (- 1) =
     Inr \<lparr>code = CodeUnknown, theCase = None, description = ''Unknown op status code: [-1]'',
          details = Some Map.empty\<rparr> \<and>
   NewWithCodeValue 999 =
     Inr \<lparr>code = CodeUnknown, theCase = None, description = ''Unknown op status code: [999]'',
          details = Some Map.empty\<rparr> \<and>
   ''Unknown op status code: [-1]'' \<noteq> ''Unknown op status code: '' @ Itoa (- 1) \<and>
   ''Unknown op status code: [999]'' \<noteq> ''Unknown op status code: '' @ Itoa 999"
proof -
  have i: "Itoa (- 1) = ''-1''" "Itoa 999 = ''999''"
    by code_simp+
  show ?thesis
    by (simp add: NewWithCodeValue_out_of_range i)
qed

section \<open>Details\<close>

text \<open>
  The Status of \<open>NewWithCode\<close>, of \<open>NewByHTTPStatus\<close> and of \<open>NewWithCodeValue\<close> in
  range has a nil details map.  \<open>AddDetail\<close> ignores a key that trims to the empty
  string, panics on a nil map, and stores the value under the trimmed key in a map that
  is not nil.  \<open>WithDescription\<close> keeps the entries of a map that is not nil, and
  returns a map that is not nil whenever the description changes.
\<close>

lemma details_of_factories:
  "c \<in> set codeList \<Longrightarrow> map_sum id details (NewWithCode c) = Inr None"
  "map_sum id details (NewByHTTPStatus v) = Inr None"
  "0 \<le> v \<Longrightarrow> v < 17 \<Longrightarrow> map_sum id details (NewWithCodeValue v) = Inr None"
proof -
  show "map_sum id details (NewWithCode c) = Inr None" if "c \<in> set codeList"
  proof -
    from that obtain i where i: "i < 17" and c: "c = codeList ! i"
      by (auto simp: in_set_conv_nth length_codeList)
    then show ?thesis
      by (simp add: NewWithCode_def val_codeList_nth index_statusList newStatus_def)
  qed
  show "map_sum id details (NewByHTTPStatus v) = Inr None"
  proof (cases "IsDefined v")
    case True
    then have "v \<in> {200, 400, 401, 403, 404, 409, 429, 499, 500, 501, 503, 504}"
      by (simp only: IsDefined_iff)
    then show ?thesis
      by (auto simp: NewByHTTPStatus_defined newStatus_def)
  next
    case False
    then show ?thesis
      by (simp add: NewByHTTPStatus_def prototypes newStatus_def)
  qed
  show "map_sum id details (NewWithCodeValue v) = Inr None" if "0 \<le> v" "v < 17"
    using that by (simp add: NewWithCodeValue_def length_statusList index_statusList newStatus_def)
qed

lemma AddDetail_cases:
  "TrimSpace k = [] \<Longrightarrow> AddDetail s k v = Inr s"
  "TrimSpace k \<noteq> [] \<Longrightarrow> details s = None \<Longrightarrow> AddDetail s k v = Inl AssignmentToEntryInNilMap"
  "TrimSpace k \<noteq> [] \<Longrightarrow> details s = Some m \<Longrightarrow>
     AddDetail s k v = Inr (s\<lparr>details := Some (m(TrimSpace k \<mapsto> v))\<rparr>)"
  by (simp_all add: AddDetail_def Let_def)

lemma WithDescription_details:
  "details s = Some m \<Longrightarrow> details (WithDescription s d) = Some m"
  by (simp add: WithDescription_def Let_def copyDetails_def)

lemma WithDescription_changed_details:
  "description s \<noteq> TrimSpace d \<Longrightarrow> details (WithDescription s d) \<noteq> None"
  by (simp add: WithDescription_def Let_def copyDetails_def split: option.splits)

text \<open>
  C3.  What \<open>AddDetail\<close> does on the Status that \<open>NewWithCode CodeNotFound\<close> returns:
  the key \<open>"resource"\<close> is not empty after trimming, the details map of the prototype is
  nil, and the assignment to the map panics; no entry is stored.
\<close>

theorem AddDetail_on_prototype_panics:
  "NewWithCode CodeNotFound = Inr (newStatus CodeNotFound) \<and>
   TrimSpace ''resource'' = ''resource'' \<and>
   AddDetail (newStatus CodeNotFound) ''resource'' (AnyString ''file.txt'') =
     Inl AssignmentToEntryInNilMap"
proof -
  have t: "TrimSpace ''resource'' = ''resource''"
    by code_simp
  have "NewWithCode CodeNotFound = Inr (newStatus CodeNotFound)"
    by (simp add: NewWithCode_def index_def length_statusList Code_defs)
       (simp add: statusList_eq Code_defs)
  moreover have "AddDetail (newStatus CodeNotFound) ''resource'' (AnyString ''file.txt'') =
     Inl AssignmentToEntryInNilMap"
    by (simp add: AddDetail_def t) (simp add: newStatus_def)
  ultimately show ?thesis using t by simp
qed

end
